theory Spec2Isabelle
  imports Main "HOL-Library.Monad_Syntax"
begin

section \<open>JSON values and HTTP responses\<close>

text \<open>
  Request and response bodies are JSON. An object is an association list; a key is read
  with \<open>map_of\<close>. Numbers are integers (no route of the PDF subsystem computes with
  fractions).
\<close>

datatype json =
    JNull
  | JBool bool
  | JNum int
  | JStr string
  | JArr "json list"
  | JObj "(string \<times> json) list"

definition get_field :: "json \<Rightarrow> string \<Rightarrow> json option" where
  "get_field j k = (case j of JObj kvs \<Rightarrow> map_of kvs k | _ \<Rightarrow> None)"

text \<open>\<open>{ ...req.body, userId }\<close>: the spread followed by a key overrides that key.\<close>

definition spread_with :: "json \<Rightarrow> string \<Rightarrow> json \<Rightarrow> json" where
  "spread_with j k v =
     (case j of
        JObj kvs \<Rightarrow> JObj (filter (\<lambda>kv. fst kv \<noteq> k) kvs @ [(k, v)])
      | _ \<Rightarrow> JObj [(k, v)])"

record response =
  status :: nat
  body :: json

text \<open>\<open>res.status(c).json({ message: m })\<close>\<close>

definition message :: "nat \<Rightarrow> string \<Rightarrow> response" where
  "message c m = \<lparr>status = c, body = JObj [(''message'', JStr m)]\<rparr>"

text \<open>\<open>res.json(v)\<close> answers with status 200.\<close>

definition ok :: "json \<Rightarrow> response" where
  "ok v = \<lparr>status = 200, body = v\<rparr>"

section \<open>The \<open>pdf_notes\<close> table\<close>

text \<open>
  One row of \<open>pdfNotes\<close> (type \<open>PdfNote\<close> of the schema). The column \<open>id\<close> is named
  \<open>pdf_id\<close> here. Nullable columns are options; timestamps are milliseconds.
\<close>

record PdfNote =
  pdf_id :: string
  userId :: string
  title :: string
  description :: "string option"
  s3Key :: string
  fileName :: string
  fileSize :: int
  mimeType :: string
  isPublic :: bool
  shareToken :: "string option"
  downloadCount :: int
  createdAt :: "nat option"
  updatedAt :: "nat option"

text \<open>\<open>InsertPdfNote\<close>: what \<open>insertPdfNoteSchema\<close> yields. The schema omits \<open>id\<close>,
  \<open>createdAt\<close>, \<open>updatedAt\<close> and \<open>downloadCount\<close>; columns with a default or without
  \<open>notNull\<close> are optional.\<close>

record InsertPdfNote =
  ins_userId :: string
  ins_title :: string
  ins_description :: "string option"
  ins_s3Key :: string
  ins_fileName :: string
  ins_fileSize :: int
  ins_mimeType :: "string option"
  ins_isPublic :: "bool option"
  ins_shareToken :: "string option"

definition opt_json :: "('a \<Rightarrow> json) \<Rightarrow> 'a option \<Rightarrow> json" where
  "opt_json f v = (case v of None \<Rightarrow> JNull | Some x \<Rightarrow> f x)"

text \<open>\<open>res.json(pdf)\<close> serialises every column of the row; a timestamp is written
  here as its count of milliseconds.\<close>

definition pdf_json :: "PdfNote \<Rightarrow> json" where
  "pdf_json p = JObj
     [(''id'', JStr (pdf_id p)),
      (''userId'', JStr (userId p)),
      (''title'', JStr (title p)),
      (''description'', opt_json JStr (description p)),
      (''s3Key'', JStr (s3Key p)),
      (''fileName'', JStr (fileName p)),
      (''fileSize'', JNum (fileSize p)),
      (''mimeType'', JStr (mimeType p)),
      (''isPublic'', JBool (isPublic p)),
      (''shareToken'', opt_json JStr (shareToken p)),
      (''downloadCount'', JNum (downloadCount p)),
      (''createdAt'', opt_json (\<lambda>t. JNum (int t)) (createdAt p)),
      (''updatedAt'', opt_json (\<lambda>t. JNum (int t)) (updatedAt p))]"

section \<open>The world a request runs in\<close>

text \<open>
  Commands sent to the object store, and the effects a handler has on the two stores, in
  the order in which it awaits them.
\<close>

datatype s3_command =
    PutObjectCommand string string
  | GetObjectCommand string
  | DeleteObjectCommand string

datatype effect =
    S3Signed s3_command
  | S3Sent s3_command
  | DbInsert string
  | DbUpdate string
  | DbIncrement string
  | DbDelete string

text \<open>
  The durable state: the rows of \<open>pdf_notes\<close>, the keys of the objects in the bucket, and
  the effects performed so far (oldest first).
\<close>

record world =
  pdfNotes :: "PdfNote list"
  bucket :: "string set"
  effects :: "effect list"

text \<open>
  What a request cannot control: the clock (\<open>Date.now()\<close>), the two UUID sources
  (\<open>randomUUID()\<close> of node, \<open>gen_random_uuid()\<close> of the database), and the object store
  client. \<open>getSignedUrl\<close> and \<open>s3Client.send\<close> are awaited inside the handlers'
  \<open>try\<close> blocks: a rejected promise is \<open>None\<close>, respectively \<open>False\<close>.
\<close>

record env =
  now :: nat
  randomUUID :: string
  gen_random_uuid :: string
  getSignedUrl :: "s3_command \<Rightarrow> nat \<Rightarrow> string option"
  send :: "s3_command \<Rightarrow> bool"

section \<open>server/s3.ts\<close>

text \<open>Decimal rendering of a number in a template literal.\<close>

definition digit_char :: "nat \<Rightarrow> char" where
  "digit_char d = ''0123456789'' ! d"

fun string_of_nat :: "nat \<Rightarrow> string" where
  "string_of_nat n =
     (if n < 10 then [digit_char n]
      else string_of_nat (n div 10) @ [digit_char (n mod 10)])"

declare string_of_nat.simps [simp del]

text \<open>
  \<open>generateUploadUrl\<close>: the key is \<open>pdfs/${userId}/${Date.now()}-${fileName}\<close>, the URL
  is signed for a \<open>PutObjectCommand\<close> with content type \<open>application/pdf\<close> and expires
  after 300 seconds.
\<close>

definition upload_key :: "string \<Rightarrow> nat \<Rightarrow> string \<Rightarrow> string" where
  "upload_key uid t fname = ''pdfs/'' @ uid @ ''/'' @ string_of_nat t @ ''-'' @ fname"

definition generateUploadUrl :: "env \<Rightarrow> string \<Rightarrow> string \<Rightarrow> (string \<times> string) option" where
  "generateUploadUrl e uid fname =
     (let key = upload_key uid (now e) fname in
      case getSignedUrl e (PutObjectCommand key ''application/pdf'') 300 of
        None \<Rightarrow> None
      | Some url \<Rightarrow> Some (url, key))"

definition generateDownloadUrl :: "env \<Rightarrow> string \<Rightarrow> string option" where
  "generateDownloadUrl e key = getSignedUrl e (GetObjectCommand key) 300"

text \<open>
  \<open>deleteFile\<close> sends a \<open>DeleteObjectCommand\<close>. When the store answers, the object is
  gone (deleting a missing key is no error); when the call is rejected the bucket is as
  before.
\<close>

definition deleteFile :: "env \<Rightarrow> world \<Rightarrow> string \<Rightarrow> world option" where
  "deleteFile e w key =
     (if send e (DeleteObjectCommand key)
      then Some (w\<lparr>bucket := bucket w - {key},
                   effects := effects w @ [S3Sent (DeleteObjectCommand key)]\<rparr>)
      else None)"

section \<open>The repository (\<open>server/storage.ts\<close>)\<close>

text \<open>
  The storage module is not among the sources; only its callers and the table it stores
  are. Its operations are modelled from the specification's repository contract (create,
  read, update and delete of descriptors keyed by id, the visibility-filtering token
  lookup, the atomic counter increment) and from the constraints the schema declares
  (primary key, unique share token, column defaults). As in the specification's table of
  operations, a repository call that is reached answers; the failures a handler can see
  are a rejected row and the object store's. Callers are users of the \<open>users\<close> table, so
  the foreign key on \<open>user_id\<close> holds, and the counter stays within the range of its
  column.
\<close>

text \<open>Modelled from the spec: \<open>getPdfNoteById\<close> of the storage module, the read by
  \<open>id\<close>.\<close>

definition getPdfNoteById :: "world \<Rightarrow> string \<Rightarrow> PdfNote option" where
  "getPdfNoteById w i = find (\<lambda>p. pdf_id p = i) (pdfNotes w)"

text \<open>Modelled from the spec: \<open>getPdfNoteByShareToken\<close> of the storage module,
  \<open>findByShareToken\<close>, which is absent for an unknown token and for a token whose
  descriptor is currently Private.\<close>

definition getPdfNoteByShareToken :: "world \<Rightarrow> string \<Rightarrow> PdfNote option" where
  "getPdfNoteByShareToken w t =
     find (\<lambda>p. shareToken p = Some t \<and> isPublic p) (pdfNotes w)"

text \<open>Modelled from the spec: \<open>incrementDownloadCount\<close> of the storage module, the
  atomic increment of one descriptor's counter (\<open>updatedAt\<close> advances on any mutation).\<close>

definition bump :: "nat \<Rightarrow> PdfNote \<Rightarrow> PdfNote" where
  "bump t p = p\<lparr>downloadCount := downloadCount p + 1, updatedAt := Some t\<rparr>"

definition incrementDownloadCount :: "env \<Rightarrow> world \<Rightarrow> string \<Rightarrow> world" where
  "incrementDownloadCount e w i =
     w\<lparr>pdfNotes := map (\<lambda>p. if pdf_id p = i then bump (now e) p else p) (pdfNotes w),
       effects := effects w @ [DbIncrement i]\<rparr>"

text \<open>Modelled from the spec: \<open>deletePdfNote\<close> of the storage module, the delete by
  \<open>id\<close>.\<close>

definition deletePdfNote :: "world \<Rightarrow> string \<Rightarrow> world" where
  "deletePdfNote w i =
     w\<lparr>pdfNotes := filter (\<lambda>p. pdf_id p \<noteq> i) (pdfNotes w),
       effects := effects w @ [DbDelete i]\<rparr>"

text \<open>Modelled from the spec: \<open>updatePdfNote\<close> of the storage module, the update by
  \<open>id\<close>, here of \<open>isPublic\<close> and \<open>shareToken\<close> in one statement. The unique index on
  \<open>share_token\<close> rejects the statement when another row holds the token.\<close>

definition updatePdfNote :: "env \<Rightarrow> world \<Rightarrow> string \<Rightarrow> bool \<Rightarrow> string \<Rightarrow> world option" where
  "updatePdfNote e w i pub tok =
     (if list_ex (\<lambda>q. pdf_id q = i) (pdfNotes w) \<and>
         list_ex (\<lambda>p. pdf_id p \<noteq> i \<and> shareToken p = Some tok) (pdfNotes w)
      then None
      else Some (w\<lparr>pdfNotes :=
                     map (\<lambda>p. if pdf_id p = i
                               then p\<lparr>isPublic := pub, shareToken := Some tok,
                                      updatedAt := Some (now e)\<rparr>
                               else p) (pdfNotes w),
                   effects := effects w @ [DbUpdate i]\<rparr>))"

text \<open>Modelled from the spec: \<open>createPdfNote\<close> of the storage module, the insert of one
  row. Columns the insert leaves out take the defaults the schema declares
  (\<open>gen_random_uuid()\<close>, \<open>application/pdf\<close>, \<open>false\<close>, \<open>0\<close>, \<open>now()\<close>); the primary key
  and the unique index on \<open>share_token\<close> reject a duplicate.\<close>

definition new_row :: "env \<Rightarrow> InsertPdfNote \<Rightarrow> PdfNote" where
  "new_row e d =
     \<lparr>pdf_id = gen_random_uuid e,
      userId = ins_userId d,
      title = ins_title d,
      description = ins_description d,
      s3Key = ins_s3Key d,
      fileName = ins_fileName d,
      fileSize = ins_fileSize d,
      mimeType = (case ins_mimeType d of None \<Rightarrow> ''application/pdf'' | Some m \<Rightarrow> m),
      isPublic = (case ins_isPublic d of None \<Rightarrow> False | Some b \<Rightarrow> b),
      shareToken = ins_shareToken d,
      downloadCount = 0,
      createdAt = Some (now e),
      updatedAt = Some (now e)\<rparr>"

definition createPdfNote :: "env \<Rightarrow> world \<Rightarrow> InsertPdfNote \<Rightarrow> (PdfNote \<times> world) option" where
  "createPdfNote e w d =
     (let row = new_row e d in
      if list_ex (\<lambda>p. pdf_id p = pdf_id row) (pdfNotes w) \<or>
         (case shareToken row of
            None \<Rightarrow> False
          | Some t \<Rightarrow> list_ex (\<lambda>p. shareToken p = Some t) (pdfNotes w))
      then None
      else Some (row, w\<lparr>pdfNotes := pdfNotes w @ [row],
                        effects := effects w @ [DbInsert (pdf_id row)]\<rparr>))"

section \<open>shared/schema.ts: \<open>insertPdfNoteSchema\<close>\<close>

text \<open>
  \<open>insertPdfNoteSchema.parse\<close> throws on a payload that does not fit the columns; the
  result is \<open>None\<close> then. Keys the schema does not know (among them the omitted \<open>id\<close>,
  \<open>createdAt\<close>, \<open>updatedAt\<close> and \<open>downloadCount\<close>) are dropped. A required column must be
  present with its type; an optional one may be missing (outer \<open>Some\<close>, inner \<open>None\<close>), a
  nullable one may also be \<open>null\<close>. Lengths are those of the \<open>varchar\<close> columns, the
  integer range that of a four-byte \<open>integer\<close> column.
\<close>

definition fits :: "nat option \<Rightarrow> string \<Rightarrow> bool" where
  "fits bound v = (case bound of None \<Rightarrow> True | Some n \<Rightarrow> length v \<le> n)"

definition required_string :: "json \<Rightarrow> string \<Rightarrow> nat option \<Rightarrow> string option" where
  "required_string j k bound =
     (case get_field j k of
        Some (JStr v) \<Rightarrow> if fits bound v then Some v else None
      | _ \<Rightarrow> None)"

definition required_integer :: "json \<Rightarrow> string \<Rightarrow> int option" where
  "required_integer j k =
     (case get_field j k of
        Some (JNum n) \<Rightarrow> if - 2147483648 \<le> n \<and> n \<le> 2147483647 then Some n else None
      | _ \<Rightarrow> None)"

definition optional_string :: "json \<Rightarrow> string \<Rightarrow> nat option \<Rightarrow> string option option" where
  "optional_string j k bound =
     (case get_field j k of
        None \<Rightarrow> Some None
      | Some (JStr v) \<Rightarrow> if fits bound v then Some (Some v) else None
      | _ \<Rightarrow> None)"

definition nullable_string :: "json \<Rightarrow> string \<Rightarrow> nat option \<Rightarrow> string option option" where
  "nullable_string j k bound =
     (case get_field j k of
        None \<Rightarrow> Some None
      | Some JNull \<Rightarrow> Some None
      | Some (JStr v) \<Rightarrow> if fits bound v then Some (Some v) else None
      | _ \<Rightarrow> None)"

definition optional_boolean :: "json \<Rightarrow> string \<Rightarrow> bool option option" where
  "optional_boolean j k =
     (case get_field j k of
        None \<Rightarrow> Some None
      | Some (JBool b) \<Rightarrow> Some (Some b)
      | _ \<Rightarrow> None)"

definition insertPdfNoteSchema_parse :: "json \<Rightarrow> InsertPdfNote option" where
  "insertPdfNoteSchema_parse j =
     do {
       u \<leftarrow> required_string j ''userId'' None;
       t \<leftarrow> required_string j ''title'' (Some 500);
       d \<leftarrow> nullable_string j ''description'' None;
       k \<leftarrow> required_string j ''s3Key'' (Some 1000);
       f \<leftarrow> required_string j ''fileName'' (Some 500);
       z \<leftarrow> required_integer j ''fileSize'';
       m \<leftarrow> optional_string j ''mimeType'' (Some 100);
       b \<leftarrow> optional_boolean j ''isPublic'';
       s \<leftarrow> nullable_string j ''shareToken'' None;
       Some \<lparr>ins_userId = u, ins_title = t, ins_description = d, ins_s3Key = k,
             ins_fileName = f, ins_fileSize = z, ins_mimeType = m, ins_isPublic = b,
             ins_shareToken = s\<rparr>
     }"

section \<open>server/routes.ts: the PDF routes\<close>

text \<open>
  \<open>req.session?.userId\<close> is an optional string; \<open>!userId\<close> holds when it is undefined
  or the empty string.
\<close>

definition falsy :: "string option \<Rightarrow> bool" where
  "falsy v = (case v of None \<Rightarrow> True | Some x \<Rightarrow> x = [])"

text \<open>\<open>GET /api/pdfs/:id/download\<close>\<close>

definition download_pdf :: "env \<Rightarrow> world \<Rightarrow> string option \<Rightarrow> string \<Rightarrow> response \<times> world" where
  "download_pdf e w uid i =
     (case getPdfNoteById w i of
        None \<Rightarrow> (message 404 ''PDF not found'', w)
      | Some pdf \<Rightarrow>
          if Some (userId pdf) \<noteq> uid \<and> \<not> isPublic pdf
          then (message 403 ''Forbidden'', w)
          else (case generateDownloadUrl e (s3Key pdf) of
                  None \<Rightarrow> (message 500 ''Failed to generate download URL'', w)
                | Some url \<Rightarrow>
                    (ok (JObj [(''downloadUrl'', JStr url)]),
                     incrementDownloadCount e
                       (w\<lparr>effects := effects w @ [S3Signed (GetObjectCommand (s3Key pdf))]\<rparr>) i)))"

text \<open>\<open>GET /api/pdfs/shared/:token/download\<close>\<close>

definition download_shared :: "env \<Rightarrow> world \<Rightarrow> string \<Rightarrow> response \<times> world" where
  "download_shared e w token =
     (case getPdfNoteByShareToken w token of
        None \<Rightarrow> (message 404 ''PDF not found or not public'', w)
      | Some pdf \<Rightarrow>
          (case generateDownloadUrl e (s3Key pdf) of
             None \<Rightarrow> (message 500 ''Failed to generate download URL'', w)
           | Some url \<Rightarrow>
               (ok (JObj [(''downloadUrl'', JStr url)]),
                incrementDownloadCount e
                  (w\<lparr>effects := effects w @ [S3Signed (GetObjectCommand (s3Key pdf))]\<rparr>)
                  (pdf_id pdf))))"

text \<open>\<open>GET /api/pdfs/shared/:token\<close>\<close>

definition get_shared :: "world \<Rightarrow> string \<Rightarrow> response \<times> world" where
  "get_shared w token =
     (case getPdfNoteByShareToken w token of
        None \<Rightarrow> (message 404 ''PDF not found or not public'', w)
      | Some pdf \<Rightarrow> (ok (pdf_json pdf), w))"

text \<open>\<open>DELETE /api/pdfs/:id\<close>\<close>

definition delete_pdf :: "env \<Rightarrow> world \<Rightarrow> string option \<Rightarrow> string \<Rightarrow> response \<times> world" where
  "delete_pdf e w uid i =
     (if falsy uid then (message 401 ''Unauthorized'', w)
      else case getPdfNoteById w i of
        None \<Rightarrow> (message 404 ''PDF not found'', w)
      | Some pdf \<Rightarrow>
          if Some (userId pdf) \<noteq> uid then (message 403 ''Forbidden'', w)
          else (case deleteFile e w (s3Key pdf) of
                  None \<Rightarrow> (message 500 ''Failed to delete PDF'', w)
                | Some w' \<Rightarrow> (ok (JObj [(''success'', JBool True)]), deletePdfNote w' i)))"

text \<open>\<open>POST /api/pdfs/presign-upload\<close>; \<open>fname\<close> is \<open>req.body.fileName\<close>.\<close>

definition presign_upload ::
  "env \<Rightarrow> world \<Rightarrow> string option \<Rightarrow> string option \<Rightarrow> response \<times> world" where
  "presign_upload e w uid fname =
     (if falsy uid then (message 401 ''Unauthorized'', w)
      else if falsy fname then (message 400 ''File name is required'', w)
      else case (uid, fname) of
        (Some u, Some f) \<Rightarrow>
          (case generateUploadUrl e u f of
             None \<Rightarrow> (message 500 ''Failed to generate upload URL'', w)
           | Some (url, key) \<Rightarrow>
               (ok (JObj [(''uploadUrl'', JStr url), (''s3Key'', JStr key)]),
                w\<lparr>effects := effects w @ [S3Signed (PutObjectCommand key ''application/pdf'')]\<rparr>))
      | _ \<Rightarrow> (message 500 ''Failed to generate upload URL'', w))"

text \<open>\<open>POST /api/pdfs\<close>; \<open>payload\<close> is \<open>req.body\<close>.\<close>

definition create_pdf :: "env \<Rightarrow> world \<Rightarrow> string option \<Rightarrow> json \<Rightarrow> response \<times> world" where
  "create_pdf e w uid payload =
     (if falsy uid then (message 401 ''Unauthorized'', w)
      else case uid of
        None \<Rightarrow> (message 401 ''Unauthorized'', w)
      | Some u \<Rightarrow>
          (case insertPdfNoteSchema_parse (spread_with payload ''userId'' (JStr u)) of
             None \<Rightarrow> (message 500 ''Failed to create PDF'', w)
           | Some pdfData \<Rightarrow>
               (case createPdfNote e w pdfData of
                  None \<Rightarrow> (message 500 ''Failed to create PDF'', w)
                | Some (pdf, w') \<Rightarrow> (ok (pdf_json pdf), w'))))"

text \<open>\<open>POST /api/pdfs/:id/share\<close>; \<open>pub\<close> is \<open>req.body.isPublic\<close>, which the client
  sends as a boolean; \<open>proto\<close> and \<open>host\<close> are \<open>req.protocol\<close> and \<open>req.get('host')\<close>.
  \<open>pdf.shareToken || randomUUID()\<close> keeps a token that is neither null nor empty.\<close>

definition share_pdf ::
  "env \<Rightarrow> world \<Rightarrow> string option \<Rightarrow> string \<Rightarrow> bool \<Rightarrow> string \<Rightarrow> string \<Rightarrow> response \<times> world" where
  "share_pdf e w uid i pub proto host =
     (if falsy uid then (message 401 ''Unauthorized'', w)
      else case getPdfNoteById w i of
        None \<Rightarrow> (message 404 ''PDF not found'', w)
      | Some pdf \<Rightarrow>
          if Some (userId pdf) \<noteq> uid then (message 403 ''Forbidden'', w)
          else
            (let tok = (if falsy (shareToken pdf) then randomUUID e
                        else (case shareToken pdf of Some t \<Rightarrow> t | None \<Rightarrow> randomUUID e)) in
             case updatePdfNote e w i pub tok of
               None \<Rightarrow> (message 500 ''Failed to share PDF'', w)
             | Some w' \<Rightarrow>
                 (ok (JObj [(''shareUrl'',
                             if pub then JStr (proto @ ''://'' @ host @ ''/shared/'' @ tok)
                             else JNull),
                            (''shareToken'', JStr tok)]),
                  w')))"

text \<open>The routes of the PDF subsystem as one request type; a run handles requests one
  after the other, each in its own environment.\<close>

datatype request =
    GetShared string
  | PresignUpload "string option" "string option"
  | CreatePdf "string option" json
  | SharePdf "string option" string bool string string
  | DownloadPdf "string option" string
  | DownloadShared string
  | DeletePdf "string option" string

fun handle :: "env \<Rightarrow> world \<Rightarrow> request \<Rightarrow> response \<times> world" where
  "handle e w (GetShared token) = get_shared w token"
| "handle e w (PresignUpload uid fname) = presign_upload e w uid fname"
| "handle e w (CreatePdf uid payload) = create_pdf e w uid payload"
| "handle e w (SharePdf uid i pub proto host) = share_pdf e w uid i pub proto host"
| "handle e w (DownloadPdf uid i) = download_pdf e w uid i"
| "handle e w (DownloadShared token) = download_shared e w token"
| "handle e w (DeletePdf uid i) = delete_pdf e w uid i"

fun run :: "world \<Rightarrow> (env \<times> request) list \<Rightarrow> world" where
  "run w [] = w"
| "run w (x # xs) = run (snd (handle (fst x) w (snd x))) xs"

fun is_share :: "request \<Rightarrow> bool" where
  "is_share (SharePdf uid i pub proto host) = True"
| "is_share _ = False"

section \<open>Properties as predicates on a request's outcome\<close>

text \<open>
  A counted download of \<open>pdf\<close>: first the read handle for its key was signed, then its
  counter was incremented, by one, and nothing else was touched.
\<close>

definition counted :: "env \<Rightarrow> world \<Rightarrow> PdfNote \<Rightarrow> world \<Rightarrow> bool" where
  "counted e w pdf w' \<longleftrightarrow>
     effects w' = effects w @ [S3Signed (GetObjectCommand (s3Key pdf)), DbIncrement (pdf_id pdf)] \<and>
     bucket w' = bucket w \<and>
     pdfNotes w' = map (\<lambda>p. if pdf_id p = pdf_id pdf
                              then p\<lparr>downloadCount := downloadCount p + 1, updatedAt := Some (now e)\<rparr>
                              else p) (pdfNotes w)"






section \<open>Example data\<close>

definition note1 :: PdfNote where
  "note1 = \<lparr>pdf_id = ''d1'', userId = ''alice'', title = ''Thesis'', description = None,
     s3Key = ''pdfs/alice/1700000000000-thesis.pdf'', fileName = ''thesis.pdf'',
     fileSize = 1024, mimeType = ''application/pdf'', isPublic = False,
     shareToken = Some ''tok-1'', downloadCount = 3, createdAt = Some 5, updatedAt = Some 5\<rparr>"

definition note2 :: PdfNote where
  "note2 = \<lparr>pdf_id = ''d2'', userId = ''bob'', title = ''Slides'', description = Some ''week 1'',
     s3Key = ''pdfs/bob/1700000000001-slides.pdf'', fileName = ''slides.pdf'',
     fileSize = 2048, mimeType = ''application/pdf'', isPublic = True,
     shareToken = Some ''tok-2'', downloadCount = 0, createdAt = Some 6, updatedAt = Some 7\<rparr>"

definition note3 :: PdfNote where
  "note3 = \<lparr>pdf_id = ''d3'', userId = ''alice'', title = ''Draft'', description = None,
     s3Key = ''pdfs/alice/1700000000002-draft.pdf'', fileName = ''draft.pdf'',
     fileSize = 10, mimeType = ''application/pdf'', isPublic = False,
     shareToken = None, downloadCount = 0, createdAt = Some 8, updatedAt = Some 8\<rparr>"

definition world0 :: world where
  "world0 = \<lparr>pdfNotes = [note1, note2, note3],
     bucket = {s3Key note1, s3Key note2, s3Key note3}, effects = []\<rparr>"

text \<open>An environment in which the object store answers, and one in which it does not.\<close>

definition env_up :: env where
  "env_up = \<lparr>now = 1700000000500, randomUUID = ''uuid-node'', gen_random_uuid = ''uuid-db'',
     getSignedUrl = (\<lambda>c t. Some ''https://signed''), send = (\<lambda>c. True)\<rparr>"

definition env_down :: env where
  "env_down = \<lparr>now = 1700000000500, randomUUID = ''uuid-node'', gen_random_uuid = ''uuid-db'',
     getSignedUrl = (\<lambda>c t. None), send = (\<lambda>c. False)\<rparr>"

text \<open>A run of share requests on the document \<open>d1\<close>.\<close>

definition toggles0 :: "(env \<times> request) list" where
  "toggles0 =
     [(env_up, SharePdf (Some ''alice'') ''d1'' True ''https'' ''host''),
      (env_up, SharePdf (Some ''bob'') ''d1'' False ''https'' ''host''),
      (env_down, SharePdf (Some ''alice'') ''d1'' False ''https'' ''host'')]"

text \<open>A finalize payload that asks for a public document and tries to set the owner and
  the counter.\<close>

definition payload_public :: json where
  "payload_public = JObj
     [(''title'', JStr ''Notes''),
      (''s3Key'', JStr ''pdfs/alice/1700000000400-notes.pdf''),
      (''fileName'', JStr ''notes.pdf''),
      (''fileSize'', JNum 10),
      (''isPublic'', JBool True),
      (''downloadCount'', JNum 7),
      (''userId'', JStr ''bob'')]"

text \<open>A second request in the same millisecond: another UUID and another signature, the
  same clock value.\<close>

definition env_same_ms :: env where
  "env_same_ms = \<lparr>now = 1700000000500, randomUUID = ''uuid-node-2'',
     gen_random_uuid = ''uuid-db-2'', getSignedUrl = (\<lambda>c t. Some ''https://signed-2''),
     send = (\<lambda>c. True)\<rparr>"

section \<open>Download by id\<close>

lemma find_map_keep:
  assumes "\<And>x. P (f x) = P x"
  shows "find P (map f xs) = map_option f (find P xs)"
  using assms by (induction xs) auto

text \<open>
  C3. On the route that downloads by id: when no descriptor has the id the answer is 404
  (NotFound) and nothing changes; when the descriptor exists and the caller is neither its
  owner nor is it public the answer is 403 (Forbidden) and nothing changes; when the
  descriptor exists and the caller is the owner or the document is public, the request is
  permitted: the answer is never 403 or 404, and it is 200 carrying the read handle the
  object store issued for the descriptor's key.
\<close>

theorem download_by_id_decision:
  "(getPdfNoteById w i = None \<longrightarrow>
      download_pdf e w uid i = (message 404 ''PDF not found'', w)) \<and>
   (\<forall>pdf. getPdfNoteById w i = Some pdf \<and> uid \<noteq> Some (userId pdf) \<and> \<not> isPublic pdf \<longrightarrow>
      download_pdf e w uid i = (message 403 ''Forbidden'', w)) \<and>
   (\<forall>pdf. getPdfNoteById w i = Some pdf \<and> (uid = Some (userId pdf) \<or> isPublic pdf) \<longrightarrow>
      status (fst (download_pdf e w uid i)) \<noteq> 403 \<and>
      status (fst (download_pdf e w uid i)) \<noteq> 404 \<and>
      (\<forall>url. generateDownloadUrl e (s3Key pdf) = Some url \<longrightarrow>
         fst (download_pdf e w uid i) = ok (JObj [(''downloadUrl'', JStr url)])))"
  by (auto simp: download_pdf_def message_def ok_def split: option.splits)

lemmas example_defs =
  world0_def note1_def note2_def note3_def env_up_def env_down_def

theorem download_by_id_decision_witness:
  "download_pdf env_up world0 (Some ''carol'') ''d9'' = (message 404 ''PDF not found'', world0) \<and>
   download_pdf env_up world0 (Some ''bob'') ''d1'' = (message 403 ''Forbidden'', world0) \<and>
   fst (download_pdf env_up world0 (Some ''alice'') ''d1'') =
     ok (JObj [(''downloadUrl'', JStr ''https://signed'')]) \<and>
   fst (download_pdf env_up world0 (Some ''alice'') ''d2'') =
     ok (JObj [(''downloadUrl'', JStr ''https://signed'')])"
proof -
  have absent: "getPdfNoteById world0 ''d9'' = None"
    and d1: "getPdfNoteById world0 ''d1'' = Some note1"
    and d2: "getPdfNoteById world0 ''d2'' = Some note2"
    by (simp_all add: getPdfNoteById_def example_defs)
  have who: "Some ''bob'' \<noteq> Some (userId note1)" "\<not> isPublic note1"
    "Some ''alice'' = Some (userId note1)" "isPublic note2"
    by (simp_all add: note1_def note2_def)
  have url: "generateDownloadUrl env_up (s3Key note1) = Some ''https://signed''"
    "generateDownloadUrl env_up (s3Key note2) = Some ''https://signed''"
    by (simp_all add: generateDownloadUrl_def env_up_def)
  show ?thesis
    using download_by_id_decision [of world0 "''d9''" env_up "Some ''carol''"]
      download_by_id_decision [of world0 "''d1''" env_up "Some ''bob''"]
      download_by_id_decision [of world0 "''d1''" env_up "Some ''alice''"]
      download_by_id_decision [of world0 "''d2''" env_up "Some ''alice''"]
      absent d1 d2 who url
    by blast
qed

text \<open>
  C10. The route that downloads by id asks for no caller identity. For a request without
  a session: the answer is never 401; when the document exists and is public and the
  object store issues the handle, the answer is 200 with that handle and the document's
  counter has grown by one; when the document exists and is private the answer is 403
  (Forbidden).
\<close>

theorem download_by_id_anonymous:
  "status (fst (download_pdf e w None i)) \<noteq> 401 \<and>
   (\<forall>pdf. getPdfNoteById w i = Some pdf \<and> \<not> isPublic pdf \<longrightarrow>
      download_pdf e w None i = (message 403 ''Forbidden'', w)) \<and>
   (\<forall>pdf url. getPdfNoteById w i = Some pdf \<and> isPublic pdf \<and>
        generateDownloadUrl e (s3Key pdf) = Some url \<longrightarrow>
      fst (download_pdf e w None i) = ok (JObj [(''downloadUrl'', JStr url)]) \<and>
      map_option downloadCount (getPdfNoteById (snd (download_pdf e w None i)) i) =
        Some (downloadCount pdf + 1))"
proof -
  have "map_option downloadCount
          (find (\<lambda>p. pdf_id p = i)
             (map (\<lambda>p. if pdf_id p = i then bump t p else p) rows)) =
        Some (downloadCount pdf + 1)"
    if "find (\<lambda>p. pdf_id p = i) rows = Some pdf" for t rows pdf
  proof -
    have "find (\<lambda>p. pdf_id p = i) (map (\<lambda>p. if pdf_id p = i then bump t p else p) rows) =
          map_option (\<lambda>p. if pdf_id p = i then bump t p else p) (find (\<lambda>p. pdf_id p = i) rows)"
      by (rule find_map_keep) (simp add: bump_def)
    with that show ?thesis
      by (auto simp: bump_def dest: find_Some_iff [THEN iffD1])
  qed
  then show ?thesis
    by (auto simp: download_pdf_def message_def ok_def getPdfNoteById_def
        incrementDownloadCount_def split: option.splits)
qed

theorem download_by_id_anonymous_witness:
  "status (fst (download_pdf env_up world0 None ''d2'')) \<noteq> 401 \<and>
   download_pdf env_up world0 None ''d1'' = (message 403 ''Forbidden'', world0) \<and>
   fst (download_pdf env_up world0 None ''d2'') =
     ok (JObj [(''downloadUrl'', JStr ''https://signed'')]) \<and>
   map_option downloadCount (getPdfNoteById (snd (download_pdf env_up world0 None ''d2'')) ''d2'') =
     Some 1"
proof -
  have d1: "getPdfNoteById world0 ''d1'' = Some note1"
    and d2: "getPdfNoteById world0 ''d2'' = Some note2"
    by (simp_all add: getPdfNoteById_def example_defs)
  have vis: "\<not> isPublic note1" "isPublic note2" "downloadCount note2 = 0"
    by (simp_all add: note1_def note2_def)
  have url: "generateDownloadUrl env_up (s3Key note2) = Some ''https://signed''"
    by (simp add: generateDownloadUrl_def env_up_def)
  show ?thesis
    using download_by_id_anonymous [of env_up world0 "''d1''"]
      download_by_id_anonymous [of env_up world0 "''d2''"] d1 d2 vis url
    by (simp add: ok_def)
qed

section \<open>Download by share token\<close>

lemma find_Some_holds: "find P xs = Some x \<Longrightarrow> P x \<and> x \<in> set xs"
  by (auto simp: find_Some_iff)

text \<open>
  C1. On the public path a token that no descriptor holds and a token whose descriptor is
  currently private get the same answer: 404 with the same message, and nothing changes.
  The public routes (download and metadata lookup) never answer 403, so the answer does
  not tell a private document from a missing one.
\<close>

theorem shared_download_masks_private:
  "status (fst (download_shared e w token)) \<noteq> 403 \<and>
   status (fst (get_shared w token)) \<noteq> 403 \<and>
   ((\<forall>p \<in> set (pdfNotes w). shareToken p = Some token \<longrightarrow> \<not> isPublic p) \<longrightarrow>
      download_shared e w token = (message 404 ''PDF not found or not public'', w) \<and>
      get_shared w token = (message 404 ''PDF not found or not public'', w))"
  by (auto simp: download_shared_def get_shared_def getPdfNoteByShareToken_def message_def ok_def
      dest!: find_Some_holds split: option.splits)

theorem shared_download_masks_private_witness:
  "download_shared env_up world0 ''tok-1'' = (message 404 ''PDF not found or not public'', world0) \<and>
   download_shared env_up world0 ''tok-9'' = (message 404 ''PDF not found or not public'', world0) \<and>
   get_shared world0 ''tok-1'' = (message 404 ''PDF not found or not public'', world0)"
proof -
  have dormant: "\<forall>p \<in> set (pdfNotes world0). shareToken p = Some ''tok-1'' \<longrightarrow> \<not> isPublic p"
    and unknown: "\<forall>p \<in> set (pdfNotes world0). shareToken p = Some ''tok-9'' \<longrightarrow> \<not> isPublic p"
    by (simp_all add: example_defs)
  show ?thesis
    using shared_download_masks_private [of env_up world0 "''tok-1''"]
      shared_download_masks_private [of env_up world0 "''tok-9''"] dormant unknown
    by blast
qed

section \<open>The download counter\<close>

text \<open>
  C4. On both download paths, for a permitted request: when the object store issues no
  handle the answer is 500 and the world is as before, so nothing is counted; when it
  issues one, the answer carries it, the increment follows the signing in the order of
  effects, and the document's counter is its old value plus one. A request that is not
  answered with 200 changes nothing.
\<close>

theorem download_counted_after_handle:
  "(\<forall>pdf. getPdfNoteById w i = Some pdf \<and> (uid = Some (userId pdf) \<or> isPublic pdf) \<longrightarrow>
      (generateDownloadUrl e (s3Key pdf) = None \<longrightarrow>
         download_pdf e w uid i = (message 500 ''Failed to generate download URL'', w)) \<and>
      (\<forall>url. generateDownloadUrl e (s3Key pdf) = Some url \<longrightarrow>
         fst (download_pdf e w uid i) = ok (JObj [(''downloadUrl'', JStr url)]) \<and>
         counted e w pdf (snd (download_pdf e w uid i)) \<and>
         map_option downloadCount (getPdfNoteById (snd (download_pdf e w uid i)) i) =
           Some (downloadCount pdf + 1))) \<and>
   (\<forall>pdf. getPdfNoteByShareToken w token = Some pdf \<longrightarrow>
      (generateDownloadUrl e (s3Key pdf) = None \<longrightarrow>
         download_shared e w token = (message 500 ''Failed to generate download URL'', w)) \<and>
      (\<forall>url. generateDownloadUrl e (s3Key pdf) = Some url \<longrightarrow>
         fst (download_shared e w token) = ok (JObj [(''downloadUrl'', JStr url)]) \<and>
         counted e w pdf (snd (download_shared e w token)) \<and>
         map_option downloadCount (getPdfNoteByShareToken (snd (download_shared e w token)) token) =
           Some (downloadCount pdf + 1))) \<and>
   (status (fst (download_pdf e w uid i)) \<noteq> 200 \<longrightarrow> snd (download_pdf e w uid i) = w) \<and>
   (status (fst (download_shared e w token)) \<noteq> 200 \<longrightarrow> snd (download_shared e w token) = w)"
proof -
  have by_id: "find (\<lambda>p. pdf_id p = i) (map (\<lambda>p. if pdf_id p = j then bump t p else p) rows) =
      map_option (\<lambda>p. if pdf_id p = j then bump t p else p) (find (\<lambda>p. pdf_id p = i) rows)"
    for j t rows
    by (rule find_map_keep) (simp add: bump_def)
  have by_token: "find (\<lambda>p. shareToken p = Some token \<and> isPublic p)
        (map (\<lambda>p. if pdf_id p = j then bump t p else p) rows) =
      map_option (\<lambda>p. if pdf_id p = j then bump t p else p)
        (find (\<lambda>p. shareToken p = Some token \<and> isPublic p) rows)"
    for j t rows
    by (rule find_map_keep) (simp add: bump_def)
  have id_found: "pdf_id pdf = i"
    if "find (\<lambda>p. pdf_id p = i) rows = Some pdf" for rows and pdf :: PdfNote
    using that by (auto dest: find_Some_holds)
  show ?thesis
    by (auto simp: download_pdf_def download_shared_def message_def ok_def counted_def
        getPdfNoteById_def getPdfNoteByShareToken_def incrementDownloadCount_def
        by_id by_token bump_def dest: id_found split: option.splits)
qed

theorem download_counted_after_handle_witness:
  "download_pdf env_down world0 (Some ''alice'') ''d1'' =
     (message 500 ''Failed to generate download URL'', world0) \<and>
   map_option downloadCount
     (getPdfNoteById (snd (download_pdf env_up world0 (Some ''alice'') ''d1'')) ''d1'') = Some 4 \<and>
   effects (snd (download_shared env_up world0 ''tok-2'')) =
     [S3Signed (GetObjectCommand ''pdfs/bob/1700000000001-slides.pdf''), DbIncrement ''d2''] \<and>
   map_option downloadCount
     (getPdfNoteByShareToken (snd (download_shared env_up world0 ''tok-2'')) ''tok-2'') = Some 1 \<and>
   download_shared env_down world0 ''tok-2'' =
     (message 500 ''Failed to generate download URL'', world0)"
proof -
  have d1: "getPdfNoteById world0 ''d1'' = Some note1"
    and t2: "getPdfNoteByShareToken world0 ''tok-2'' = Some note2"
    by (simp_all add: getPdfNoteById_def getPdfNoteByShareToken_def example_defs)
  have owner: "Some ''alice'' = Some (userId note1)"
    by (simp add: note1_def)
  have up: "generateDownloadUrl env_up (s3Key note1) = Some ''https://signed''"
    "generateDownloadUrl env_up (s3Key note2) = Some ''https://signed''"
    and down: "generateDownloadUrl env_down (s3Key note1) = None"
    "generateDownloadUrl env_down (s3Key note2) = None"
    by (simp_all add: generateDownloadUrl_def env_up_def env_down_def)
  have old: "downloadCount note1 = 3" "downloadCount note2 = 0" "effects world0 = []"
    "s3Key note2 = ''pdfs/bob/1700000000001-slides.pdf''" "pdf_id note2 = ''d2''"
    by (simp_all add: example_defs)
  show ?thesis
    using download_counted_after_handle [of world0 "''d1''" "Some ''alice''" env_down "''tok-2''"]
      download_counted_after_handle [of world0 "''d1''" "Some ''alice''" env_up "''tok-2''"]
      d1 t2 owner up down old
    by (simp add: counted_def)
qed

section \<open>Deleting a document\<close>



section \<open>Toggling visibility\<close>

lemma found_id: "getPdfNoteById w i = Some pdf \<Longrightarrow> pdf_id pdf = i"
  by (auto simp: getPdfNoteById_def dest: find_Some_holds)

lemma found_ex: "getPdfNoteById w i = Some pdf \<Longrightarrow> list_ex (\<lambda>q. pdf_id q = i) (pdfNotes w)"
  by (auto simp: getPdfNoteById_def list_ex_iff dest: find_Some_holds)

lemma updatePdfNote_lookup:
  assumes "updatePdfNote e w j pub tok = Some w'"
  shows "getPdfNoteById w' i =
         map_option (\<lambda>p. if pdf_id p = j
                          then p\<lparr>isPublic := pub, shareToken := Some tok, updatedAt := Some (now e)\<rparr>
                          else p) (getPdfNoteById w i)"
proof -
  have "find (\<lambda>p. pdf_id p = i)
          (map (\<lambda>p. if pdf_id p = j
                     then p\<lparr>isPublic := pub, shareToken := Some tok, updatedAt := Some (now e)\<rparr>
                     else p) (pdfNotes w)) =
        map_option (\<lambda>p. if pdf_id p = j
                         then p\<lparr>isPublic := pub, shareToken := Some tok, updatedAt := Some (now e)\<rparr>
                         else p) (find (\<lambda>p. pdf_id p = i) (pdfNotes w))"
    by (rule find_map_keep) simp
  with assms show ?thesis
    by (auto simp: updatePdfNote_def getPdfNoteById_def split: if_splits)
qed

lemma share_pdf_keeps_token:
  assumes "getPdfNoteById w i = Some pdf" and "shareToken pdf = Some t" and "t \<noteq> []"
  shows "\<exists>pdf'. getPdfNoteById (snd (share_pdf e w uid j pub proto host)) i = Some pdf' \<and>
           shareToken pdf' = Some t"
proof (cases "j = i")
  case True
  with assms show ?thesis
    by (auto simp: share_pdf_def falsy_def Let_def updatePdfNote_lookup split: option.splits)
next
  case False
  with assms found_id [OF assms(1)] show ?thesis
    by (auto simp: share_pdf_def Let_def updatePdfNote_lookup split: option.splits)
qed

lemma run_keeps_token:
  assumes "\<forall>x \<in> set rs. is_share (snd x)"
    and "getPdfNoteById w i = Some pdf" and "shareToken pdf = Some t" and "t \<noteq> []"
  shows "\<exists>pdf'. getPdfNoteById (run w rs) i = Some pdf' \<and> shareToken pdf' = Some t"
  using assms
proof (induction rs arbitrary: w pdf)
  case Nil
  then show ?case by simp
next
  case (Cons x rs)
  from Cons.prems(1) obtain uid j pub proto host where rq: "snd x = SharePdf uid j pub proto host"
    by (cases "snd x") auto
  from share_pdf_keeps_token [OF Cons.prems(2-4)]
  obtain pdf' where "getPdfNoteById (snd (share_pdf (fst x) w uid j pub proto host)) i = Some pdf'"
    and "shareToken pdf' = Some t"
    by blast
  with Cons.IH [of _ pdf'] Cons.prems(1,4) rq show ?case
    by simp
qed

lemma others_hold_after_update:
  assumes "updatePdfNote e w i pub tok = Some w'"
  shows "list_ex (\<lambda>p. pdf_id p \<noteq> i \<and> shareToken p = Some tok') (pdfNotes w') =
         list_ex (\<lambda>p. pdf_id p \<noteq> i \<and> shareToken p = Some tok') (pdfNotes w)"
  using assms by (auto simp: updatePdfNote_def list_ex_iff split: if_splits)

lemma share_pdf_twice:
  assumes "randomUUID e1 \<noteq> []"
    and "status (fst (share_pdf e1 w uid i True proto host)) = 200"
  shows "fst (share_pdf e2 (snd (share_pdf e1 w uid i True proto host)) uid i True proto host) =
         fst (share_pdf e1 w uid i True proto host)"
proof -
  from assms(2) obtain pdf where pdf: "getPdfNoteById w i = Some pdf"
    and caller: "\<not> falsy uid" "Some (userId pdf) = uid"
    by (auto simp: share_pdf_def message_def split: option.splits if_splits)
  define tok where "tok = (if falsy (shareToken pdf) then randomUUID e1
                        else (case shareToken pdf of Some t \<Rightarrow> t | None \<Rightarrow> randomUUID e1))"
  from assms(2) pdf caller obtain w1 where upd: "updatePdfNote e1 w i True tok = Some w1"
    by (auto simp: share_pdf_def message_def tok_def Let_def split: option.splits if_splits)
  have first: "share_pdf e1 w uid i True proto host =
      (ok (JObj [(''shareUrl'', JStr (proto @ ''://'' @ host @ ''/shared/'' @ tok)),
                 (''shareToken'', JStr tok)]), w1)"
    using pdf caller upd by (simp add: share_pdf_def tok_def Let_def)
  have tok_ne: "tok \<noteq> []"
    using assms(1) by (auto simp: tok_def falsy_def split: option.splits)
  have pdf1: "getPdfNoteById w1 i =
      Some (pdf\<lparr>isPublic := True, shareToken := Some tok, updatedAt := Some (now e1)\<rparr>)"
    using updatePdfNote_lookup [OF upd, of i] pdf found_id [OF pdf] by simp
  have free: "\<not> list_ex (\<lambda>p. pdf_id p \<noteq> i \<and> shareToken p = Some tok) (pdfNotes w1)"
    using upd found_ex [OF pdf] others_hold_after_update [OF upd, of tok]
    by (auto simp: updatePdfNote_def split: if_splits)
  then obtain w2 where upd2: "updatePdfNote e2 w1 i True tok = Some w2"
    by (simp add: updatePdfNote_def)
  have "share_pdf e2 w1 uid i True proto host =
      (ok (JObj [(''shareUrl'', JStr (proto @ ''://'' @ host @ ''/shared/'' @ tok)),
                 (''shareToken'', JStr tok)]), w2)"
    using pdf1 caller upd2 tok_ne by (simp add: share_pdf_def falsy_def Let_def)
  with first show ?thesis
    by simp
qed

text \<open>
  C7. A share token, once a document has one, keeps its value through every sequence of
  share requests, whoever sends them and whatever they ask for. In particular, when a
  request to make a document public has succeeded, the same request sent again succeeds
  and is answered with the same share token and share URL. (A token is a string that
  \<open>randomUUID\<close> returned, which is never empty.)
\<close>

theorem share_token_never_changes:
  "(\<forall>pdf t. getPdfNoteById w i = Some pdf \<and> shareToken pdf = Some t \<and> t \<noteq> [] \<and>
        (\<forall>x \<in> set rs. is_share (snd x)) \<longrightarrow>
      map_option shareToken (getPdfNoteById (run w rs) i) = Some (Some t)) \<and>
   (randomUUID e1 \<noteq> [] \<and> status (fst (share_pdf e1 w uid i True proto host)) = 200 \<longrightarrow>
      status (fst (share_pdf e2 (snd (share_pdf e1 w uid i True proto host))
                     uid i True proto host)) = 200 \<and>
      fst (share_pdf e2 (snd (share_pdf e1 w uid i True proto host)) uid i True proto host) =
        fst (share_pdf e1 w uid i True proto host))"
proof (intro conjI allI impI)
  fix pdf t
  assume "getPdfNoteById w i = Some pdf \<and> shareToken pdf = Some t \<and> t \<noteq> [] \<and>
    (\<forall>x \<in> set rs. is_share (snd x))"
  then show "map_option shareToken (getPdfNoteById (run w rs) i) = Some (Some t)"
    using run_keeps_token [of rs w i pdf t] by auto
next
  assume h: "randomUUID e1 \<noteq> [] \<and> status (fst (share_pdf e1 w uid i True proto host)) = 200"
  then show "fst (share_pdf e2 (snd (share_pdf e1 w uid i True proto host)) uid i True proto host) =
      fst (share_pdf e1 w uid i True proto host)"
    by (simp add: share_pdf_twice)
  with h show "status (fst (share_pdf e2 (snd (share_pdf e1 w uid i True proto host))
      uid i True proto host)) = 200"
    by simp
qed

theorem share_token_never_changes_witness:
  "map_option shareToken (getPdfNoteById (run world0 toggles0) ''d1'') = Some (Some ''tok-1'') \<and>
   fst (share_pdf env_down (snd (share_pdf env_up world0 (Some ''alice'') ''d3'' True ''https'' ''host''))
          (Some ''alice'') ''d3'' True ''https'' ''host'') =
     ok (JObj [(''shareUrl'', JStr ''https://host/shared/uuid-node''),
               (''shareToken'', JStr ''uuid-node'')])"
proof -
  have d1: "getPdfNoteById world0 ''d1'' = Some note1 \<and> shareToken note1 = Some ''tok-1'' \<and>
      ''tok-1'' \<noteq> [] \<and> (\<forall>x \<in> set toggles0. is_share (snd x))"
    by (simp add: getPdfNoteById_def toggles0_def example_defs)
  have first: "fst (share_pdf env_up world0 (Some ''alice'') ''d3'' True ''https'' ''host'') =
      ok (JObj [(''shareUrl'', JStr ''https://host/shared/uuid-node''),
                (''shareToken'', JStr ''uuid-node'')])"
    by (simp add: share_pdf_def getPdfNoteById_def updatePdfNote_def falsy_def Let_def example_defs)
  have "randomUUID env_up \<noteq> []"
    by (simp add: env_up_def)
  moreover have "status (fst (share_pdf env_up world0 (Some ''alice'') ''d3'' True ''https'' ''host'')) = 200"
    by (simp add: first ok_def)
  ultimately have twice: "randomUUID env_up \<noteq> [] \<and>
      status (fst (share_pdf env_up world0 (Some ''alice'') ''d3'' True ''https'' ''host'')) = 200"
    by (rule conjI)
  have kept: "map_option shareToken (getPdfNoteById (run world0 toggles0) ''d1'') =
      Some (Some ''tok-1'')"
    using share_token_never_changes [where w = world0 and i = "''d1''" and rs = toggles0,
        THEN conjunct1, rule_format, OF d1] .
  have again: "fst (share_pdf env_down
        (snd (share_pdf env_up world0 (Some ''alice'') ''d3'' True ''https'' ''host''))
        (Some ''alice'') ''d3'' True ''https'' ''host'') =
      fst (share_pdf env_up world0 (Some ''alice'') ''d3'' True ''https'' ''host'')"
    using share_token_never_changes [where w = world0 and i = "''d3''" and ?e1.0 = env_up
        and ?e2.0 = env_down and uid = "Some ''alice''" and proto = "''https''"
        and host = "''host''", THEN conjunct2, rule_format, OF twice, THEN conjunct2] .
  show ?thesis
    using kept again first by (simp only: simp_thms)
qed

text \<open>
  C8, as stated, fails: a share request with \<open>isPublic = false\<close> on a document that has
  no token assigns one. The owner of \<open>d3\<close> asks for it to be private; afterwards it is
  private and has a token.
\<close>

theorem share_private_assigns_token_counterexample:
  "map_option shareToken (getPdfNoteById world0 ''d3'') = Some None \<and>
   map_option isPublic (getPdfNoteById world0 ''d3'') = Some False \<and>
   map_option shareToken
     (getPdfNoteById (snd (share_pdf env_up world0 (Some ''alice'') ''d3'' False ''https'' ''host''))
        ''d3'') = Some (Some ''uuid-node'') \<and>
   map_option isPublic
     (getPdfNoteById (snd (share_pdf env_up world0 (Some ''alice'') ''d3'' False ''https'' ''host''))
        ''d3'') = Some False"
  by (simp add: share_pdf_def getPdfNoteById_def updatePdfNote_def falsy_def Let_def example_defs)

text \<open>
  C8, amended. A share request that succeeds writes the visibility and the token with one
  update of the row: afterwards the document has the requested visibility and a token,
  which is the one it had, or a fresh \<open>randomUUID()\<close> when it had none, for
  \<open>isPublic = true\<close> and \<open>isPublic = false\<close> alike. So no share request leaves a document
  public without a token. A share request that does not succeed changes nothing.
\<close>

theorem share_writes_token_with_visibility:
  "\<forall>pdf. getPdfNoteById w i = Some pdf \<longrightarrow>
     (status (fst (share_pdf e w uid i pub proto host)) = 200 \<longrightarrow>
        (\<exists>tok. (shareToken pdf = None \<longrightarrow> tok = randomUUID e) \<and>
               (\<forall>t. shareToken pdf = Some t \<and> t \<noteq> [] \<longrightarrow> tok = t) \<and>
               get_field (body (fst (share_pdf e w uid i pub proto host))) ''shareToken'' =
                 Some (JStr tok) \<and>
               getPdfNoteById (snd (share_pdf e w uid i pub proto host)) i =
                 Some (pdf\<lparr>isPublic := pub, shareToken := Some tok, updatedAt := Some (now e)\<rparr>) \<and>
               effects (snd (share_pdf e w uid i pub proto host)) = effects w @ [DbUpdate i])) \<and>
     (status (fst (share_pdf e w uid i pub proto host)) \<noteq> 200 \<longrightarrow>
        snd (share_pdf e w uid i pub proto host) = w)"
proof (intro allI impI)
  fix pdf
  assume pdf: "getPdfNoteById w i = Some pdf"
  have eff: "effects w' = effects w @ [DbUpdate i]"
    if "updatePdfNote e w i pub tok = Some w'" for tok w'
    using that by (auto simp: updatePdfNote_def split: if_splits)
  show "(status (fst (share_pdf e w uid i pub proto host)) = 200 \<longrightarrow>
        (\<exists>tok. (shareToken pdf = None \<longrightarrow> tok = randomUUID e) \<and>
               (\<forall>t. shareToken pdf = Some t \<and> t \<noteq> [] \<longrightarrow> tok = t) \<and>
               get_field (body (fst (share_pdf e w uid i pub proto host))) ''shareToken'' =
                 Some (JStr tok) \<and>
               getPdfNoteById (snd (share_pdf e w uid i pub proto host)) i =
                 Some (pdf\<lparr>isPublic := pub, shareToken := Some tok, updatedAt := Some (now e)\<rparr>) \<and>
               effects (snd (share_pdf e w uid i pub proto host)) = effects w @ [DbUpdate i])) \<and>
     (status (fst (share_pdf e w uid i pub proto host)) \<noteq> 200 \<longrightarrow>
        snd (share_pdf e w uid i pub proto host) = w)"
    using pdf found_id [OF pdf]
    by (auto simp: share_pdf_def Let_def falsy_def message_def ok_def get_field_def
        updatePdfNote_lookup eff split: option.splits)
qed

theorem share_writes_token_with_visibility_witness:
  "getPdfNoteById (snd (share_pdf env_up world0 (Some ''alice'') ''d3'' True ''https'' ''host'')) ''d3'' =
     Some (note3\<lparr>isPublic := True, shareToken := Some ''uuid-node'',
                 updatedAt := Some 1700000000500\<rparr>) \<and>
   snd (share_pdf env_up world0 (Some ''bob'') ''d3'' True ''https'' ''host'') = world0"
proof -
  have d3: "getPdfNoteById world0 ''d3'' = Some note3"
    by (simp add: getPdfNoteById_def example_defs)
  have none: "shareToken note3 = None"
    by (simp add: note3_def)
  have env: "randomUUID env_up = ''uuid-node''" "now env_up = 1700000000500"
    by (simp_all add: env_up_def)
  have owner: "status (fst (share_pdf env_up world0 (Some ''alice'') ''d3'' True ''https'' ''host'')) = 200"
    and other: "status (fst (share_pdf env_up world0 (Some ''bob'') ''d3'' True ''https'' ''host'')) \<noteq> 200"
    by (simp_all add: share_pdf_def getPdfNoteById_def updatePdfNote_def falsy_def message_def
        ok_def Let_def example_defs)
  note inst = share_writes_token_with_visibility [where w = world0 and i = "''d3''" and e = env_up
      and proto = "''https''" and host = "''host''" and pub = True, rule_format, OF d3]
  from inst [where uid = "Some ''alice''", THEN conjunct1, rule_format, OF owner]
  obtain tok where tok: "(shareToken note3 = None \<longrightarrow> tok = randomUUID env_up) \<and>
      (\<forall>t. shareToken note3 = Some t \<and> t \<noteq> [] \<longrightarrow> tok = t) \<and>
      get_field (body (fst (share_pdf env_up world0 (Some ''alice'') ''d3'' True ''https'' ''host'')))
        ''shareToken'' = Some (JStr tok) \<and>
      getPdfNoteById (snd (share_pdf env_up world0 (Some ''alice'') ''d3'' True ''https'' ''host''))
        ''d3'' = Some (note3\<lparr>isPublic := True, shareToken := Some tok, updatedAt := Some (now env_up)\<rparr>) \<and>
      effects (snd (share_pdf env_up world0 (Some ''alice'') ''d3'' True ''https'' ''host'')) =
        effects world0 @ [DbUpdate ''d3'']" ..
  from tok [THEN conjunct1, rule_format, OF none] env(1) have fresh: "tok = ''uuid-node''"
    by (rule trans)
  have "getPdfNoteById (snd (share_pdf env_up world0 (Some ''alice'') ''d3'' True ''https'' ''host''))
      ''d3'' = Some (note3\<lparr>isPublic := True, shareToken := Some ''uuid-node'',
                 updatedAt := Some 1700000000500\<rparr>)"
    using tok [THEN conjunct2, THEN conjunct2, THEN conjunct2, THEN conjunct1]
    unfolding fresh env(2) .
  moreover have "snd (share_pdf env_up world0 (Some ''bob'') ''d3'' True ''https'' ''host'') = world0"
    using inst [where uid = "Some ''bob''", THEN conjunct2, rule_format, OF other] .
  ultimately show ?thesis
    by (rule conjI)
qed

section \<open>Finalizing an upload\<close>

lemma map_of_without:
  "map_of (filter (\<lambda>kv. fst kv \<noteq> k) kvs) k' = (if k' = k then None else map_of kvs k')"
  by (induction kvs) auto

lemma get_field_spread_with:
  "get_field (spread_with j k v) k' =
     (if k' = k then Some v else case j of JObj kvs \<Rightarrow> map_of kvs k' | _ \<Rightarrow> None)"
  by (cases j) (simp_all add: get_field_def spread_with_def map_of_without map_add_def
      split: option.splits)

lemma parse_userId_isPublic:
  assumes "insertPdfNoteSchema_parse j = Some d"
  shows "required_string j ''userId'' None = Some (ins_userId d) \<and>
         optional_boolean j ''isPublic'' = Some (ins_isPublic d)"
  using assms by (auto simp: insertPdfNoteSchema_parse_def split: Option.bind_splits)

lemma created_row:
  assumes "createPdfNote e w d = Some (pdf, w')"
  shows "pdf = new_row e d \<and> pdfNotes w' = pdfNotes w @ [pdf]"
  using assms by (auto simp: createPdfNote_def Let_def split: if_splits)

text \<open>
  C6, as stated, fails: the insert schema omits \<open>downloadCount\<close> (with \<open>id\<close> and the
  timestamps) but not \<open>isPublic\<close>, so a finalize payload with \<open>isPublic = true\<close>
  creates a public descriptor. The owner and the counter do not follow the payload.
\<close>

theorem create_pdf_public_counterexample:
  "status (fst (create_pdf env_up world0 (Some ''alice'') payload_public)) = 200 \<and>
   map_option isPublic
     (getPdfNoteById (snd (create_pdf env_up world0 (Some ''alice'') payload_public)) ''uuid-db'') =
     Some True \<and>
   map_option userId
     (getPdfNoteById (snd (create_pdf env_up world0 (Some ''alice'') payload_public)) ''uuid-db'') =
     Some ''alice'' \<and>
   map_option downloadCount
     (getPdfNoteById (snd (create_pdf env_up world0 (Some ''alice'') payload_public)) ''uuid-db'') =
     Some 0"
  by (simp add: create_pdf_def insertPdfNoteSchema_parse_def spread_with_def get_field_def
      required_string_def required_integer_def optional_string_def nullable_string_def
      optional_boolean_def fits_def createPdfNote_def new_row_def getPdfNoteById_def falsy_def
      ok_def Let_def payload_public_def example_defs)

text \<open>
  C6, amended. Whenever the finalize request succeeds, the descriptor it creates and
  returns has the caller as owner and a download count of 0, whatever the payload says
  about \<open>userId\<close> or \<open>downloadCount\<close>; it is public exactly when the payload carries
  \<open>isPublic = true\<close>, and private otherwise.
\<close>

theorem create_pdf_owner_counter_visibility:
  "status (fst (create_pdf e w uid payload)) = 200 \<longrightarrow>
     (\<exists>pdf. fst (create_pdf e w uid payload) = ok (pdf_json pdf) \<and>
            pdfNotes (snd (create_pdf e w uid payload)) = pdfNotes w @ [pdf] \<and>
            Some (userId pdf) = uid \<and>
            downloadCount pdf = 0 \<and>
            (isPublic pdf \<longleftrightarrow> get_field payload ''isPublic'' = Some (JBool True)))"
proof
  assume okay: "status (fst (create_pdf e w uid payload)) = 200"
  then obtain u d pdf w' where u: "uid = Some u"
    and d: "insertPdfNoteSchema_parse (spread_with payload ''userId'' (JStr u)) = Some d"
    and c: "createPdfNote e w d = Some (pdf, w')"
    and r: "create_pdf e w uid payload = (ok (pdf_json pdf), w')"
    by (auto simp: create_pdf_def message_def split: option.splits if_splits)
  from parse_userId_isPublic [OF d]
  have owner: "ins_userId d = u"
    and flag: "optional_boolean (spread_with payload ''userId'' (JStr u)) ''isPublic'' =
      Some (ins_isPublic d)"
    by (auto simp: required_string_def get_field_spread_with fits_def)
  from d obtain kvs where obj: "payload = JObj kvs"
    by (cases payload)
      (auto simp: insertPdfNoteSchema_parse_def required_string_def get_field_spread_with
        split: Option.bind_splits)
  have same: "get_field (spread_with payload ''userId'' (JStr u)) ''isPublic'' =
      get_field payload ''isPublic''"
    unfolding obj by (simp add: get_field_spread_with) (simp add: get_field_def)
  from flag have vis: "(case ins_isPublic d of None \<Rightarrow> False | Some b \<Rightarrow> b) \<longleftrightarrow>
      get_field payload ''isPublic'' = Some (JBool True)"
    by (auto simp: optional_boolean_def same split: option.splits json.splits)
  from created_row [OF c] owner vis u r
  show "\<exists>pdf. fst (create_pdf e w uid payload) = ok (pdf_json pdf) \<and>
      pdfNotes (snd (create_pdf e w uid payload)) = pdfNotes w @ [pdf] \<and>
      Some (userId pdf) = uid \<and> downloadCount pdf = 0 \<and>
      (isPublic pdf \<longleftrightarrow> get_field payload ''isPublic'' = Some (JBool True))"
    by (auto simp: new_row_def)
qed

theorem create_pdf_owner_counter_visibility_witness:
  "\<exists>pdf. fst (create_pdf env_up world0 (Some ''alice'') payload_public) = ok (pdf_json pdf) \<and>
     pdfNotes (snd (create_pdf env_up world0 (Some ''alice'') payload_public)) =
       pdfNotes world0 @ [pdf] \<and>
     Some (userId pdf) = Some ''alice'' \<and> downloadCount pdf = 0 \<and>
     (isPublic pdf \<longleftrightarrow> get_field payload_public ''isPublic'' = Some (JBool True))"
proof -
  have "status (fst (create_pdf env_up world0 (Some ''alice'') payload_public)) = 200"
    by (simp add: create_pdf_def insertPdfNoteSchema_parse_def spread_with_def get_field_def
        required_string_def required_integer_def optional_string_def nullable_string_def
        optional_boolean_def fits_def createPdfNote_def new_row_def falsy_def
        ok_def Let_def payload_public_def example_defs)
  then show ?thesis
    by (rule create_pdf_owner_counter_visibility [rule_format])
qed

section \<open>Initiating an upload\<close>

lemma digit_char_inj: "a < 10 \<Longrightarrow> b < 10 \<Longrightarrow> digit_char a = digit_char b \<Longrightarrow> a = b"
  unfolding digit_char_def
  by (subst (asm) nth_eq_iff_index_eq) simp_all

lemma digit_char_in: "d < 10 \<Longrightarrow> digit_char d \<in> set ''0123456789''"
  unfolding digit_char_def by (rule nth_mem) simp

lemma string_of_nat_digits: "c \<in> set (string_of_nat n) \<Longrightarrow> c \<in> set ''0123456789''"
proof (induction n rule: string_of_nat.induct)
  case (1 n)
  show ?case
  proof (cases "n < 10")
    case True
    with "1.prems" digit_char_in [of n] show ?thesis
      by (simp add: string_of_nat.simps [of n])
  next
    case False
    with "1.prems" "1.IH" digit_char_in [of "n mod 10"] show ?thesis
      by (auto simp: string_of_nat.simps [of n])
  qed
qed

lemma string_of_nat_no_dash: "CHR ''-'' \<notin> set (string_of_nat n)"
  using string_of_nat_digits [of "CHR ''-''" n] by auto

lemma string_of_nat_not_empty: "string_of_nat n \<noteq> []"
  by (simp add: string_of_nat.simps [of n])

lemma string_of_nat_inj: "string_of_nat m = string_of_nat n \<Longrightarrow> m = n"
proof (induction m arbitrary: n rule: string_of_nat.induct)
  case (1 m)
  show ?case
  proof (cases "m < 10")
    case small: True
    show ?thesis
    proof (cases "n < 10")
      case True
      with small "1.prems" show ?thesis
        by (simp add: string_of_nat.simps [of m] string_of_nat.simps [of n] digit_char_inj)
    next
      case False
      with small "1.prems" string_of_nat_not_empty [of "n div 10"] show ?thesis
        by (simp add: string_of_nat.simps [of m] string_of_nat.simps [of n])
    qed
  next
    case big: False
    show ?thesis
    proof (cases "n < 10")
      case True
      with big "1.prems" string_of_nat_not_empty [of "m div 10"] show ?thesis
        by (simp add: string_of_nat.simps [of m] string_of_nat.simps [of n])
    next
      case False
      with big "1.prems" have "string_of_nat (m div 10) = string_of_nat (n div 10)"
        and "digit_char (m mod 10) = digit_char (n mod 10)"
        by (simp_all add: string_of_nat.simps [of m] string_of_nat.simps [of n])
      with big "1.IH" [of "n div 10"] have "m div 10 = n div 10" and "m mod 10 = n mod 10"
        by (simp_all add: digit_char_inj)
      then show ?thesis
        by (metis div_mult_mod_eq)
    qed
  qed
qed

lemma split_at_first:
  assumes "a @ c # x = b @ c # y" and "c \<notin> set a" and "c \<notin> set b"
  shows "a = b \<and> x = y"
  using assms
proof (induction a arbitrary: b)
  case Nil
  then show ?case by (cases b) auto
next
  case (Cons h a)
  then show ?case by (cases b) auto
qed

lemma upload_key_eq_iff: "upload_key uid t1 f1 = upload_key uid t2 f2 \<longleftrightarrow> t1 = t2 \<and> f1 = f2"
proof
  assume "upload_key uid t1 f1 = upload_key uid t2 f2"
  then have "string_of_nat t1 @ CHR ''-'' # f1 = string_of_nat t2 @ CHR ''-'' # f2"
    by (simp add: upload_key_def)
  from split_at_first [OF this string_of_nat_no_dash string_of_nat_no_dash]
  show "t1 = t2 \<and> f1 = f2"
    by (auto dest: string_of_nat_inj)
qed simp

text \<open>
  C9, as stated, fails: the suffix of the key is the millisecond clock and the file name,
  so two requests of one owner for the same file name that read the same clock value are
  given the same key.
\<close>

theorem upload_key_collision_counterexample:
  "map_option snd (generateUploadUrl env_up ''alice'' ''a.pdf'') =
     Some ''pdfs/alice/1700000000500-a.pdf'' \<and>
   map_option snd (generateUploadUrl env_same_ms ''alice'' ''a.pdf'') =
     Some ''pdfs/alice/1700000000500-a.pdf'' \<and>
   map_option fst (generateUploadUrl env_up ''alice'' ''a.pdf'') \<noteq>
     map_option fst (generateUploadUrl env_same_ms ''alice'' ''a.pdf'')"
  by (simp add: generateUploadUrl_def upload_key_def string_of_nat.simps digit_char_def
      env_up_def env_same_ms_def)

text \<open>
  C9, amended. The key of an upload is \<open>pdfs/\<close>, the owner's id, \<open>/\<close>, the millisecond
  clock, \<open>-\<close> and the file name: it lies under the owner's namespace, and two requests of
  one owner get the same key exactly when they read the same clock value and name the
  same file. The request writes no row and no object, whatever its answer.
\<close>

theorem upload_key_namespace:
  "(upload_key owner t1 f1 = upload_key owner t2 f2 \<longleftrightarrow> t1 = t2 \<and> f1 = f2) \<and>
   pdfNotes (snd (presign_upload e w uid fname)) = pdfNotes w \<and>
   bucket (snd (presign_upload e w uid fname)) = bucket w \<and>
   (status (fst (presign_upload e w uid fname)) = 200 \<longrightarrow>
      (\<exists>u f url. uid = Some u \<and> fname = Some f \<and>
         fst (presign_upload e w uid fname) =
           ok (JObj [(''uploadUrl'', JStr url),
                     (''s3Key'', JStr (''pdfs/'' @ u @ ''/'' @ string_of_nat (now e) @ ''-'' @ f))])))"
proof -
  have "pdfNotes (snd (presign_upload e w uid fname)) = pdfNotes w \<and>
      bucket (snd (presign_upload e w uid fname)) = bucket w \<and>
      (status (fst (presign_upload e w uid fname)) = 200 \<longrightarrow>
        (\<exists>u f url. uid = Some u \<and> fname = Some f \<and>
           fst (presign_upload e w uid fname) =
             ok (JObj [(''uploadUrl'', JStr url),
                       (''s3Key'', JStr (''pdfs/'' @ u @ ''/'' @ string_of_nat (now e) @ ''-'' @ f))])))"
    by (auto simp: presign_upload_def generateUploadUrl_def upload_key_def message_def ok_def
        Let_def split: option.splits)
  with upload_key_eq_iff [of owner t1 f1 t2 f2] show ?thesis
    by (rule conjI)
qed

theorem upload_key_namespace_witness:
  "upload_key ''alice'' 1700000000500 ''a.pdf'' \<noteq> upload_key ''alice'' 1700000000501 ''a.pdf'' \<and>
   pdfNotes (snd (presign_upload env_up world0 (Some ''alice'') (Some ''a.pdf''))) = pdfNotes world0 \<and>
   (\<exists>u f url. Some ''alice'' = Some u \<and> Some ''a.pdf'' = Some f \<and>
      fst (presign_upload env_up world0 (Some ''alice'') (Some ''a.pdf'')) =
        ok (JObj [(''uploadUrl'', JStr url),
                  (''s3Key'', JStr (''pdfs/'' @ u @ ''/'' @ string_of_nat (now env_up) @ ''-'' @ f))]))"
proof -
  note inst = upload_key_namespace [where owner = "''alice''" and ?t1.0 = 1700000000500
      and ?t2.0 = 1700000000501 and ?f1.0 = "''a.pdf''" and ?f2.0 = "''a.pdf''" and e = env_up
      and w = world0 and uid = "Some ''alice''" and fname = "Some ''a.pdf''"]
  have issued: "status (fst (presign_upload env_up world0 (Some ''alice'') (Some ''a.pdf''))) = 200"
    by (simp add: presign_upload_def generateUploadUrl_def falsy_def ok_def Let_def env_up_def)
  have "upload_key ''alice'' 1700000000500 ''a.pdf'' \<noteq> upload_key ''alice'' 1700000000501 ''a.pdf''"
    using inst [THEN conjunct1] by simp
  moreover note inst [THEN conjunct2, THEN conjunct1]
  moreover note inst [THEN conjunct2, THEN conjunct2, THEN conjunct2, rule_format, OF issued]
  ultimately show ?thesis
    by (intro conjI)
qed

section \<open>What a response contains\<close>













end
